theory Spec2Isabelle
  imports Main "HOL-Library.Sublist" "HOL-Library.Word"
begin

section \<open>Data model of the API client (services/api.ts and types/index.ts)\<close>

text \<open>
  The interface \<open>Review\<close> of types/index.ts. Optional fields are options. Every field
  carries the prefix \<open>review_\<close>, which keeps the names apart from those of the filters.
\<close>

record Review =
  review_id :: int
  review_location :: string
  review_rating :: int
  review_text :: string
  review_date :: string
  review_sentiment :: "string option"
  review_topic :: "string option"
  review_created_at :: "string option"
  review_updated_at :: "string option"
  review_processed_at :: "string option"
  review_metadata :: "string option"

text \<open>
  A JavaScript string whose characters the client inspects (the search query, the
  values of the filters) is the list of its UTF-16 code units. Text that the client
  only writes or passes on (urls, property names, messages) is a \<open>string\<close>.
\<close>

type_synonym jsstring = "16 word list"

text \<open>
  Primitive JavaScript values that occur as query parameters. An object is a map from
  property names to values; a property may be present and hold \<open>undefined\<close>.
\<close>

datatype jsval = Undefined | Num int | Str jsstring

type_synonym jsobject = "string \<rightharpoonup> jsval"

text \<open>
  \<open>Partial<ReviewFilters & Pagination>\<close>, the parameter type of \<open>getReviews\<close>: seven
  optional properties and no other. \<open>None\<close> is an absent property. The property \<open>size\<close>
  is named \<open>size'\<close>.
\<close>

record query_params =
  location :: "jsval option"
  sentiment :: "jsval option"
  rating :: "jsval option"
  topic :: "jsval option"
  search :: "jsval option"
  page :: "jsval option"
  size' :: "jsval option"

text \<open>The own properties of such an object, which the spread \<open>...params\<close> copies.\<close>

definition own_properties :: "query_params \<Rightarrow> jsobject" where
  "own_properties p k =
     (if k = ''location'' then location p
      else if k = ''sentiment'' then sentiment p
      else if k = ''rating'' then rating p
      else if k = ''topic'' then topic p
      else if k = ''search'' then search p
      else if k = ''page'' then page p
      else if k = ''size'' then size' p
      else None)"

text \<open>
  The part of \<open>AxiosRequestConfig\<close> that the client fills in. The property \<open>method\<close>
  is named \<open>http_method\<close>.
\<close>

record config =
  http_method :: string
  url :: string
  params :: jsobject
  data :: "Review list option"

text \<open>
  A response body: its \<open>detail\<close> field (absent when the body has none) and the rest,
  which the client passes on unread. A response: its HTTP status and its body (the
  property \<open>data\<close> of an Axios response, named \<open>resp_data\<close> here).
\<close>

record body =
  detail :: "string option"
  payload :: string

record response =
  status :: nat
  resp_data :: body

text \<open>
  An \<open>AxiosError\<close>: the transport code (\<open>ECONNABORTED\<close> on a timeout), the message, and
  the response when one was received. Axios sets the property \<open>response\<close> only when a
  response was received, so \<open>'response' in error\<close> is \<open>response e \<noteq> None\<close>.
\<close>

record AxiosError =
  code :: "string option"
  message :: string
  response :: "response option"

text \<open>
  What a \<open>catch (error: unknown)\<close> block of the facade can receive: an \<open>AxiosError\<close>
  rejected by the transport, a plain \<open>Error\<close> thrown by a validation inside the \<open>try\<close>
  block, or a value that is no \<open>Error\<close> and has no \<open>response\<close> property.
\<close>

datatype thrown = AxiosErr AxiosError | PlainErr string | NonErr

text \<open>\<open>new Error(msg)\<close>, the only thing a facade operation throws to its caller.\<close>

datatype js_error = Error string

fun error_message :: "js_error \<Rightarrow> string" where
  "error_message (Error m) = m"

section \<open>The observable world\<close>

text \<open>
  The client acts on the world by issuing requests and by waiting on timers. A trace
  records both in order. The remote service is a function that answers the \<open>k\<close>-th request
  issued (counted from 0) with a response or with an \<open>AxiosError\<close>.
\<close>

datatype event = Sent config | Slept int

type_synonym trace = "event list"

type_synonym server = "nat \<Rightarrow> config \<Rightarrow> AxiosError + response"

fun is_Sent :: "event \<Rightarrow> bool" where
  "is_Sent (Sent c) = True"
| "is_Sent (Slept d) = False"

definition sent_count :: "trace \<Rightarrow> nat" where
  "sent_count t = length (filter is_Sent t)"

definition sleeps :: "trace \<Rightarrow> int list" where
  "sleeps t = concat (map (\<lambda>e. case e of Sent c \<Rightarrow> [] | Slept d \<Rightarrow> [d]) t)"

definition requests :: "trace \<Rightarrow> config list" where
  "requests t = concat (map (\<lambda>e. case e of Sent c \<Rightarrow> [c] | Slept d \<Rightarrow> []) t)"

text \<open>\<open>api(config)\<close>: exactly one network call.\<close>

definition api :: "server \<Rightarrow> config \<Rightarrow> trace \<Rightarrow> (AxiosError + response) \<times> trace" where
  "api srv cfg t = (srv (sent_count t) cfg, t @ [Sent cfg])"

text \<open>\<open>await new Promise(resolve => setTimeout(resolve, ms))\<close>.\<close>

definition setTimeout :: "int \<Rightarrow> trace \<Rightarrow> trace" where
  "setTimeout ms t = t @ [Slept ms]"

section \<open>Retry mechanism\<close>

definition MAX_RETRIES :: int where
  "MAX_RETRIES = 3"

text \<open>
  \<open>shouldRetry\<close>: \<open>error.response?.status && error.response.status >= 500\<close> is falsy for
  a missing response and for status 0.
\<close>

definition shouldRetry :: "AxiosError \<Rightarrow> bool" where
  "shouldRetry error \<longleftrightarrow>
     code error = Some ''ECONNABORTED''
     \<or> (case response error of None \<Rightarrow> False | Some r \<Rightarrow> status r \<noteq> 0 \<and> status r \<ge> 500)
     \<or> (case response error of None \<Rightarrow> False | Some r \<Rightarrow> status r = 429)"

function retryRequest ::
  "server \<Rightarrow> config \<Rightarrow> int \<Rightarrow> trace \<Rightarrow> (AxiosError + response) \<times> trace" where
  "retryRequest srv cfg retryCount t =
     (case api srv cfg t of
        (Inr resp, t1) \<Rightarrow> (Inr resp, t1)
      | (Inl error, t1) \<Rightarrow>
          if retryCount < MAX_RETRIES \<and> shouldRetry error
          then retryRequest srv cfg (retryCount + 1) (setTimeout (1000 * (retryCount + 1)) t1)
          else (Inl error, t1))"
  by pat_completeness auto
termination
  by (relation "measure (\<lambda>(srv, cfg, retryCount, t). nat (MAX_RETRIES - retryCount))")
     (auto simp: MAX_RETRIES_def)

declare retryRequest.simps [simp del]

section \<open>Helpers of the catch blocks\<close>

text \<open>
  A number inside a template string, as in \<open>`/reviews/${id}`\<close>: its decimal digits,
  after a minus sign when it is negative. The numbers here are integers.
\<close>

fun digits :: "nat \<Rightarrow> string" where
  "digits n = (if 10 \<le> n then digits (n div 10) else []) @ [''0123456789'' ! (n mod 10)]"

declare digits.simps [simp del]

definition number_text :: "int \<Rightarrow> string" where
  "number_text i = (if 0 \<le> i then digits (nat i) else CHR ''-'' # digits (nat (- i)))"

text \<open>
  The code units that \<open>String.prototype.trim\<close> strips: the white space of ECMAScript
  (TAB, VT, FF, the byte order mark U+FEFF and the space separators U+0020, U+00A0,
  U+1680, U+2000 to U+200A, U+202F, U+205F, U+3000) and its line terminators (LF, CR,
  U+2028, U+2029). All of them lie in the basic plane, and no surrogate is among them,
  so stripping code units is stripping code points.
\<close>

definition is_space :: "16 word \<Rightarrow> bool" where
  "is_space c \<longleftrightarrow>
     c \<in> set [0x0009, 0x000A, 0x000B, 0x000C, 0x000D, 0x0020, 0x00A0, 0x1680,
              0x2000, 0x2001, 0x2002, 0x2003, 0x2004, 0x2005, 0x2006, 0x2007,
              0x2008, 0x2009, 0x200A, 0x2028, 0x2029, 0x202F, 0x205F, 0x3000, 0xFEFF]"

definition trim :: "jsstring \<Rightarrow> jsstring" where
  "trim s = rev (dropWhile is_space (rev (dropWhile is_space s)))"

text \<open>\<open>error && typeof error === 'object' && 'response' in error\<close>.\<close>

fun has_response :: "thrown \<Rightarrow> bool" where
  "has_response (AxiosErr e) = (response e \<noteq> None)"
| "has_response (PlainErr m) = False"
| "has_response NonErr = False"

text \<open>\<open>error.response?.status === n\<close>.\<close>

fun status_is :: "thrown \<Rightarrow> nat \<Rightarrow> bool" where
  "status_is (AxiosErr e) n = (case response e of None \<Rightarrow> False | Some r \<Rightarrow> status r = n)"
| "status_is (PlainErr m) n = False"
| "status_is NonErr n = False"

text \<open>\<open>error instanceof Error ? error.message : 'Unknown error'\<close>.\<close>

fun errorMessage :: "thrown \<Rightarrow> string" where
  "errorMessage (AxiosErr e) = message e"
| "errorMessage (PlainErr m) = m"
| "errorMessage NonErr = ''Unknown error''"

text \<open>
  \<open>axiosError.response?.data?.detail || axiosError.message\<close>: an absent or empty
  detail is falsy.
\<close>

definition detail_or_message :: "AxiosError \<Rightarrow> string" where
  "detail_or_message e =
     (case response e of
        None \<Rightarrow> message e
      | Some r \<Rightarrow>
          (case detail (resp_data r) of
             None \<Rightarrow> message e
           | Some d \<Rightarrow> if d = [] then message e else d))"

section \<open>The facade \<open>reviewsAPI\<close>\<close>

text \<open>
  The parameter \<open>id\<close> of the source is written \<open>rid\<close>.
  Every operation is a \<open>try\<close> block and a \<open>catch\<close> block. The \<open>catch\<close> block is a
  function from the value caught to the \<open>Error\<close> thrown to the caller; the operation
  returns \<open>Inl\<close> of that error, or \<open>Inr\<close> of \<open>response.data\<close>, and the trace.
\<close>

type_synonym 'a outcome = "(js_error + 'a) \<times> trace"

definition getReviews_catch :: "thrown \<Rightarrow> js_error" where
  "getReviews_catch error = Error (''Failed to fetch reviews: '' @ errorMessage error)"

text \<open>
  The request object of \<open>getReviews\<close>: the spread writes the caller's own properties
  over the two defaults.
\<close>

definition getReviews_config :: "query_params \<Rightarrow> config" where
  "getReviews_config ps =
     \<lparr>http_method = ''GET'', url = ''/reviews'',
      params = [''page'' \<mapsto> Num 1, ''page_size'' \<mapsto> Num 10] ++ own_properties ps,
      data = None\<rparr>"

definition getReviews :: "server \<Rightarrow> query_params \<Rightarrow> trace \<Rightarrow> body outcome" where
  "getReviews srv ps t =
     (case retryRequest srv (getReviews_config ps) 0 t of
        (Inr resp, t1) \<Rightarrow> (Inr (resp_data resp), t1)
      | (Inl e, t1) \<Rightarrow> (Inl (getReviews_catch (AxiosErr e)), t1))"

definition getReview_catch :: "int \<Rightarrow> thrown \<Rightarrow> js_error" where
  "getReview_catch rid error =
     (if has_response error \<and> status_is error 404
      then Error (''Review with ID '' @ number_text rid @ '' not found'')
      else Error (''Failed to fetch review: '' @ errorMessage error))"

definition getReview_config :: "int \<Rightarrow> config" where
  "getReview_config rid =
     \<lparr>http_method = ''GET'', url = ''/reviews/'' @ number_text rid,
      params = Map.empty, data = None\<rparr>"

definition getReview :: "server \<Rightarrow> int \<Rightarrow> trace \<Rightarrow> body outcome" where
  "getReview srv rid t =
     (case retryRequest srv (getReview_config rid) 0 t of
        (Inr resp, t1) \<Rightarrow> (Inr (resp_data resp), t1)
      | (Inl e, t1) \<Rightarrow> (Inl (getReview_catch rid (AxiosErr e)), t1))"

text \<open>The argument of \<open>ingestReviews\<close> at run time: an array or anything else.\<close>

datatype reviews_arg = NotArray | Array "Review list"

definition ingestReviews_catch :: "thrown \<Rightarrow> js_error" where
  "ingestReviews_catch error = Error (''Failed to ingest reviews: '' @ errorMessage error)"

definition ingestReviews :: "server \<Rightarrow> reviews_arg \<Rightarrow> trace \<Rightarrow> body outcome" where
  "ingestReviews srv reviews t =
     (case reviews of
        NotArray \<Rightarrow>
          (Inl (ingestReviews_catch (PlainErr ''Reviews array is required and cannot be empty'')), t)
      | Array rs \<Rightarrow>
          if length rs = 0
          then (Inl (ingestReviews_catch
                  (PlainErr ''Reviews array is required and cannot be empty'')), t)
          else
            (case retryRequest srv
                    \<lparr>http_method = ''POST'', url = ''/ingest'', params = Map.empty,
                     data = Some rs\<rparr> 0 t of
               (Inr resp, t1) \<Rightarrow> (Inr (resp_data resp), t1)
             | (Inl e, t1) \<Rightarrow> (Inl (ingestReviews_catch (AxiosErr e)), t1)))"

definition suggestReply_catch :: "int \<Rightarrow> thrown \<Rightarrow> js_error" where
  "suggestReply_catch rid error =
     (if has_response error \<and> status_is error 404
      then Error (''Review with ID '' @ number_text rid @ '' not found'')
      else if has_response error \<and> status_is error 503
      then Error ''AI reply generation is currently unavailable''
      else Error (''Failed to generate reply: '' @ errorMessage error))"

definition suggestReply :: "server \<Rightarrow> int \<Rightarrow> trace \<Rightarrow> body outcome" where
  "suggestReply srv rid t =
     (case retryRequest srv
             \<lparr>http_method = ''POST'', url = ''/reviews/'' @ number_text rid @ ''/suggest-reply'',
              params = Map.empty, data = None\<rparr> 0 t of
        (Inr resp, t1) \<Rightarrow> (Inr (resp_data resp), t1)
      | (Inl e, t1) \<Rightarrow> (Inl (suggestReply_catch rid (AxiosErr e)), t1))"

fun getAnalytics_catch :: "thrown \<Rightarrow> js_error" where
  "getAnalytics_catch (AxiosErr e) =
     (if has_response (AxiosErr e)
      then if status_is (AxiosErr e) 503
           then Error ''Analytics are currently unavailable''
           else Error (''Failed to fetch analytics: '' @ detail_or_message e)
      else Error (''Failed to fetch analytics: '' @ errorMessage (AxiosErr e)))"
| "getAnalytics_catch error = Error (''Failed to fetch analytics: '' @ errorMessage error)"

definition getAnalytics :: "server \<Rightarrow> trace \<Rightarrow> body outcome" where
  "getAnalytics srv t =
     (case retryRequest srv
             \<lparr>http_method = ''GET'', url = ''/analytics'', params = Map.empty, data = None\<rparr> 0 t of
        (Inr resp, t1) \<Rightarrow> (Inr (resp_data resp), t1)
      | (Inl e, t1) \<Rightarrow> (Inl (getAnalytics_catch (AxiosErr e)), t1))"

fun searchSimilar_catch :: "thrown \<Rightarrow> js_error" where
  "searchSimilar_catch (AxiosErr e) =
     (if has_response (AxiosErr e)
      then if status_is (AxiosErr e) 503
           then Error ''Search functionality is currently unavailable''
           else Error (''Failed to search reviews: '' @ detail_or_message e)
      else Error (''Failed to search reviews: '' @ errorMessage (AxiosErr e)))"
| "searchSimilar_catch error = Error (''Failed to search reviews: '' @ errorMessage error)"

definition searchSimilar :: "server \<Rightarrow> jsstring \<Rightarrow> int \<Rightarrow> trace \<Rightarrow> body outcome" where
  "searchSimilar srv query k t =
     (if query = [] \<or> length (trim query) = 0
      then (Inl (searchSimilar_catch (PlainErr ''Search query is required'')), t)
      else
        (case retryRequest srv
                \<lparr>http_method = ''GET'', url = ''/search'',
                 params = [''q'' \<mapsto> Str (trim query), ''k'' \<mapsto> Num k], data = None\<rparr> 0 t of
           (Inr resp, t1) \<Rightarrow> (Inr (resp_data resp), t1)
         | (Inl e, t1) \<Rightarrow> (Inl (searchSimilar_catch (AxiosErr e)), t1)))"

fun processReviews_catch :: "thrown \<Rightarrow> js_error" where
  "processReviews_catch (AxiosErr e) =
     (if has_response (AxiosErr e)
      then if status_is (AxiosErr e) 503
           then Error ''Batch processing is currently unavailable''
           else Error (''Failed to process reviews: '' @ detail_or_message e)
      else Error (''Failed to process reviews: '' @ errorMessage (AxiosErr e)))"
| "processReviews_catch error = Error (''Failed to process reviews: '' @ errorMessage error)"

definition processReviews :: "server \<Rightarrow> trace \<Rightarrow> body outcome" where
  "processReviews srv t =
     (case retryRequest srv
             \<lparr>http_method = ''POST'', url = ''/process-reviews'', params = Map.empty,
              data = None\<rparr> 0 t of
        (Inr resp, t1) \<Rightarrow> (Inr (resp_data resp), t1)
      | (Inl e, t1) \<Rightarrow> (Inl (processReviews_catch (AxiosErr e)), t1))"

text \<open>\<open>healthCheck\<close> calls \<open>api.get('/health')\<close> itself, not \<open>retryRequest\<close>.\<close>

fun healthCheck_catch :: "thrown \<Rightarrow> js_error" where
  "healthCheck_catch (AxiosErr e) =
     (if has_response (AxiosErr e)
      then Error (''Health check failed: '' @ detail_or_message e)
      else Error (''Health check failed: '' @ errorMessage (AxiosErr e)))"
| "healthCheck_catch error = Error (''Health check failed: '' @ errorMessage error)"

definition healthCheck_config :: config where
  "healthCheck_config = \<lparr>http_method = ''get'', url = ''/health'', params = Map.empty, data = None\<rparr>"

definition healthCheck :: "server \<Rightarrow> trace \<Rightarrow> body outcome" where
  "healthCheck srv t =
     (case api srv healthCheck_config t of
        (Inr resp, t1) \<Rightarrow> (Inr (resp_data resp), t1)
      | (Inl e, t1) \<Rightarrow> (Inl (healthCheck_catch (AxiosErr e)), t1))"

section \<open>The component \<open>ConnectionStatus\<close> (App.tsx)\<close>

datatype api_status = api_checking | api_online | api_offline

record ConnectionStatus =
  isOnline :: bool
  apiStatus :: api_status

text \<open>\<open>useState(navigator.onLine)\<close> and \<open>useState('checking')\<close>.\<close>

definition initial :: "bool \<Rightarrow> ConnectionStatus" where
  "initial navigator_onLine = \<lparr>isOnline = navigator_onLine, apiStatus = api_checking\<rparr>"

definition handleOnline :: "ConnectionStatus \<Rightarrow> ConnectionStatus" where
  "handleOnline cs = cs\<lparr>isOnline := True\<rparr>"

definition handleOffline :: "ConnectionStatus \<Rightarrow> ConnectionStatus" where
  "handleOffline cs = cs\<lparr>isOnline := False\<rparr>"

definition checkApiHealth ::
  "server \<Rightarrow> ConnectionStatus \<times> trace \<Rightarrow> ConnectionStatus \<times> trace" where
  "checkApiHealth srv st =
     (case healthCheck srv (snd st) of
        (Inr r, t1) \<Rightarrow> ((fst st)\<lparr>apiStatus := api_online\<rparr>, t1)
      | (Inl e, t1) \<Rightarrow> ((fst st)\<lparr>apiStatus := api_offline\<rparr>, t1))"

text \<open>
  What reaches the mounted component: a poll (the call on mount or a firing of the
  30 second interval, run to completion) and the two window events.
\<close>

datatype signal = Poll | BrowserOnline | BrowserOffline

fun step :: "server \<Rightarrow> signal \<Rightarrow> ConnectionStatus \<times> trace \<Rightarrow> ConnectionStatus \<times> trace" where
  "step srv Poll st = checkApiHealth srv st"
| "step srv BrowserOnline st = (handleOnline (fst st), snd st)"
| "step srv BrowserOffline st = (handleOffline (fst st), snd st)"

fun run :: "server \<Rightarrow> signal list \<Rightarrow> ConnectionStatus \<times> trace \<Rightarrow> ConnectionStatus \<times> trace" where
  "run srv [] st = st"
| "run srv (s # ss) st = run srv ss (step srv s st)"

text \<open>What the component renders, and the connectivity status that the banner shows.\<close>

datatype banner = Hidden | NoInternet | ApiUnavailable | CheckingConnection

definition render :: "ConnectionStatus \<Rightarrow> banner" where
  "render cs =
     (if isOnline cs \<and> apiStatus cs = api_online then Hidden
      else if \<not> isOnline cs then NoInternet
      else if apiStatus cs = api_offline then ApiUnavailable
      else CheckingConnection)"

datatype connectivity = Checking | Online | Offline

fun shown :: "banner \<Rightarrow> connectivity" where
  "shown Hidden = Online"
| "shown NoInternet = Offline"
| "shown ApiUnavailable = Offline"
| "shown CheckingConnection = Checking"

section \<open>Concrete servers and errors\<close>

text \<open>
  A server that rejects every request with the same error, an error carrying a response
  with a given status, and the error of a timeout.
\<close>

definition always_fail :: "AxiosError \<Rightarrow> server" where
  "always_fail e = (\<lambda>k cfg. Inl e)"

definition status_error :: "nat \<Rightarrow> AxiosError" where
  "status_error n =
     \<lparr>code = None, message = ''Request failed'',
      response = Some \<lparr>status = n, resp_data = \<lparr>detail = None, payload = []\<rparr>\<rparr>\<rparr>"

definition timeout_error :: AxiosError where
  "timeout_error = \<lparr>code = Some ''ECONNABORTED'', message = ''timeout of 30000ms exceeded'', response = None\<rparr>"

text \<open>
  A server that accepts every request, the empty parameter object \<open>{}\<close>, and an error
  whose response body carries a detail.
\<close>

definition always_ok :: server where
  "always_ok = (\<lambda>k cfg. Inr \<lparr>status = 200, resp_data = \<lparr>detail = None, payload = []\<rparr>\<rparr>)"

definition no_params :: query_params where
  "no_params = \<lparr>location = None, sentiment = None, rating = None, topic = None,
                 search = None, page = None, size' = None\<rparr>"

definition detailed_error :: AxiosError where
  "detailed_error =
     \<lparr>code = None, message = ''Request failed'',
      response = Some \<lparr>status = 500,
                        resp_data = \<lparr>detail = Some ''database is down'', payload = []\<rparr>\<rparr>\<rparr>"

section \<open>The trace of a logical call\<close>

lemma sent_count_snoc_Sent [simp]: "sent_count (t @ [Sent c]) = Suc (sent_count t)"
  by (simp add: sent_count_def)

lemma sent_count_snoc_Slept [simp]: "sent_count (t @ [Slept d]) = sent_count t"
  by (simp add: sent_count_def)

lemma sent_count_Nil [simp]: "sent_count [] = 0"
  by (simp add: sent_count_def)

lemma retryRequest_unfold:
  "retryRequest srv cfg retryCount t =
     (case srv (sent_count t) cfg of
        Inr resp \<Rightarrow> (Inr resp, t @ [Sent cfg])
      | Inl e \<Rightarrow>
          if retryCount < 3 \<and> shouldRetry e
          then retryRequest srv cfg (retryCount + 1) (t @ [Sent cfg, Slept (1000 * (retryCount + 1))])
          else (Inl e, t @ [Sent cfg]))"
  by (subst retryRequest.simps) (simp add: api_def setTimeout_def MAX_RETRIES_def split: sum.splits)

lemma retryRequest_retry:
  assumes "srv (sent_count t) cfg = Inl e" and "retryCount < 3" and "shouldRetry e"
  shows "retryRequest srv cfg retryCount t =
           retryRequest srv cfg (retryCount + 1) (t @ [Sent cfg, Slept (1000 * (retryCount + 1))])"
  using assms by (subst retryRequest_unfold) simp

lemma retryRequest_stop:
  assumes "srv (sent_count t) cfg = Inl e" and "\<not> (retryCount < 3 \<and> shouldRetry e)"
  shows "retryRequest srv cfg retryCount t = (Inl e, t @ [Sent cfg])"
  using assms by (subst retryRequest_unfold) auto

lemma retryRequest_success:
  assumes "srv (sent_count t) cfg = Inr resp"
  shows "retryRequest srv cfg retryCount t = (Inr resp, t @ [Sent cfg])"
  using assms by (subst retryRequest_unfold) simp

text \<open>The trace of one logical call: attempts separated by the backoff waits.\<close>

lemma retryRequest_trace:
  "\<exists>j. (j = retryCount \<or> (retryCount < j \<and> j \<le> 3)) \<and>
       snd (retryRequest srv cfg retryCount t) =
         t @ Sent cfg # concat (map (\<lambda>i. [Slept (1000 * (i + 1)), Sent cfg]) [retryCount..j - 1])"
proof (induction srv cfg retryCount t rule: retryRequest.induct)
  case (1 srv cfg retryCount t)
  show ?case
  proof (cases "srv (sent_count t) cfg")
    case (Inr resp)
    then have "snd (retryRequest srv cfg retryCount t) = t @ [Sent cfg]"
      by (simp add: retryRequest_success)
    then show ?thesis by (intro exI [of _ retryCount]) simp
  next
    case (Inl e)
    show ?thesis
    proof (cases "retryCount < 3 \<and> shouldRetry e")
      case False
      with Inl have "snd (retryRequest srv cfg retryCount t) = t @ [Sent cfg]"
        by (simp add: retryRequest_stop)
      then show ?thesis by (intro exI [of _ retryCount]) simp
    next
      case True
      let ?t' = "t @ [Sent cfg, Slept (1000 * (retryCount + 1))]"
      have "\<exists>j. (j = retryCount + 1 \<or> (retryCount + 1 < j \<and> j \<le> 3)) \<and>
              snd (retryRequest srv cfg (retryCount + 1) ?t') =
                ?t' @ Sent cfg # concat (map (\<lambda>i. [Slept (1000 * (i + 1)), Sent cfg])
                                           [retryCount + 1..j - 1])"
        using "1.IH" [of "Inl e" "t @ [Sent cfg]" e] Inl True
        by (simp add: api_def setTimeout_def MAX_RETRIES_def)
      then obtain j where j: "j = retryCount + 1 \<or> (retryCount + 1 < j \<and> j \<le> 3)"
        and tr: "snd (retryRequest srv cfg (retryCount + 1) ?t') =
                ?t' @ Sent cfg # concat (map (\<lambda>i. [Slept (1000 * (i + 1)), Sent cfg])
                                           [retryCount + 1..j - 1])"
        by blast
      from j True have le: "retryCount \<le> j - 1" and bound: "retryCount < j \<and> j \<le> 3"
        by auto
      have "snd (retryRequest srv cfg retryCount t) =
              snd (retryRequest srv cfg (retryCount + 1) ?t')"
        using Inl True by (simp add: retryRequest_retry)
      also have "\<dots> = t @ Sent cfg # concat (map (\<lambda>i. [Slept (1000 * (i + 1)), Sent cfg])
                                           [retryCount..j - 1])"
        using tr le by (simp add: upto_rec1 [of retryCount "j - 1"])
      finally show ?thesis using bound by blast
    qed
  qed
qed

lemma sent_count_attempts:
  "sent_count (t @ Sent cfg # concat (map (\<lambda>i. [Slept (f i), Sent cfg]) xs)) =
     sent_count t + 1 + length xs"
  by (induction xs) (simp_all add: sent_count_def)

lemma requests_attempts:
  "requests (t @ Sent cfg # concat (map (\<lambda>i. [Slept (f i), Sent cfg]) xs)) =
     requests t @ replicate (Suc (length xs)) cfg"
  by (induction xs) (simp_all add: requests_def replicate_append_same)

lemma retryRequest_const_fail:
  "(\<forall>k c. srv k c = Inl e) \<Longrightarrow> fst (retryRequest srv cfg retryCount t) = Inl e"
proof (induction srv cfg retryCount t rule: retryRequest.induct)
  case (1 srv cfg retryCount t)
  have s: "srv (sent_count t) cfg = Inl e"
    using "1.prems" by simp
  show ?case
  proof (cases "retryCount < 3 \<and> shouldRetry e")
    case True
    have "fst (retryRequest srv cfg (retryCount + 1)
                 (setTimeout (1000 * (retryCount + 1)) (t @ [Sent cfg]))) = Inl e"
    proof (rule "1.IH" [of "Inl e" _ e])
      show "(Inl e, t @ [Sent cfg]) = api srv cfg t"
        using s by (simp add: api_def)
      show "retryCount < MAX_RETRIES \<and> shouldRetry e"
        using True by (simp add: MAX_RETRIES_def)
    qed (use "1.prems" in simp_all)
    then show ?thesis using s True by (simp add: retryRequest_retry setTimeout_def)
  next
    case False
    with s show ?thesis by (simp add: retryRequest_stop)
  qed
qed

section \<open>Claims about the retry mechanism\<close>

text \<open>
  C1 (amended). Let an attempt of \<open>retryRequest\<close> fail with the error \<open>e\<close>. If the attempt
  counter is less than 3 and \<open>e\<close> has the transport code ECONNABORTED, or a response with
  a status of 500 or more (503 included), or a response with status 429, then the wait of
  \<open>1000 * (retryCount + 1)\<close> ms and a second attempt follow. If \<open>e\<close> has no such transport
  code and a response with status 401 or another 4xx status other than 429, then the
  error is returned after that single attempt, whatever the counter.
\<close>

theorem retry_eligibility:
  assumes "srv (sent_count t) cfg = Inl e"
  shows "(retryCount < 3 \<and>
            (code e = Some ''ECONNABORTED'' \<or>
             (\<exists>r. response e = Some r \<and> (500 \<le> status r \<or> status r = 429))) \<longrightarrow>
          prefix (t @ [Sent cfg, Slept (1000 * (retryCount + 1)), Sent cfg])
                 (snd (retryRequest srv cfg retryCount t)))
       \<and> (code e \<noteq> Some ''ECONNABORTED'' \<and>
            (\<exists>r. response e = Some r \<and> 400 \<le> status r \<and> status r < 500 \<and> status r \<noteq> 429) \<longrightarrow>
          retryRequest srv cfg retryCount t = (Inl e, t @ [Sent cfg]))"
proof (intro conjI impI)
  assume a: "retryCount < 3 \<and>
            (code e = Some ''ECONNABORTED'' \<or>
             (\<exists>r. response e = Some r \<and> (500 \<le> status r \<or> status r = 429)))"
  then have sr: "shouldRetry e"
    by (auto simp: shouldRetry_def)
  let ?t' = "t @ [Sent cfg, Slept (1000 * (retryCount + 1))]"
  have "retryRequest srv cfg retryCount t = retryRequest srv cfg (retryCount + 1) ?t'"
    using assms a sr by (simp add: retryRequest_retry)
  moreover obtain j where
    "snd (retryRequest srv cfg (retryCount + 1) ?t') =
       ?t' @ Sent cfg # concat (map (\<lambda>i. [Slept (1000 * (i + 1)), Sent cfg]) [retryCount + 1..j - 1])"
    using retryRequest_trace [of "retryCount + 1" srv cfg ?t'] by blast
  ultimately show "prefix (t @ [Sent cfg, Slept (1000 * (retryCount + 1)), Sent cfg])
                 (snd (retryRequest srv cfg retryCount t))"
    by (simp add: prefix_def)
next
  assume "code e \<noteq> Some ''ECONNABORTED'' \<and>
            (\<exists>r. response e = Some r \<and> 400 \<le> status r \<and> status r < 500 \<and> status r \<noteq> 429)"
  then have "\<not> shouldRetry e"
    by (auto simp: shouldRetry_def)
  with assms show "retryRequest srv cfg retryCount t = (Inl e, t @ [Sent cfg])"
    by (simp add: retryRequest_stop)
qed

text \<open>
  Against C1 as stated: a response with status 503 is retried. A server that always
  answers 503 receives four attempts with the three waits between them.
\<close>

theorem retry_503_counterexample:
  "shouldRetry (status_error 503) \<and>
   snd (retryRequest (always_fail (status_error 503)) (getReview_config 1) 0 []) =
     [Sent (getReview_config 1), Slept 1000, Sent (getReview_config 1), Slept 2000,
      Sent (getReview_config 1), Slept 3000, Sent (getReview_config 1)]"
  by (simp add: retryRequest_unfold always_fail_def status_error_def shouldRetry_def)

theorem retry_eligibility_witness:
  "prefix [Sent (getReview_config 1), Slept 1000, Sent (getReview_config 1)]
          (snd (retryRequest (always_fail (status_error 503)) (getReview_config 1) 0 []))
   \<and> prefix [Sent (getReview_config 1), Slept 1000, Sent (getReview_config 1)]
          (snd (retryRequest (always_fail timeout_error) (getReview_config 1) 0 []))
   \<and> retryRequest (always_fail (status_error 401)) (getReview_config 1) 0 [] =
       (Inl (status_error 401), [Sent (getReview_config 1)])"
  using retry_eligibility [of "always_fail (status_error 503)" "[]" "getReview_config 1" "status_error 503" 0]
        retry_eligibility [of "always_fail timeout_error" "[]" "getReview_config 1" timeout_error 0]
        retry_eligibility [of "always_fail (status_error 401)" "[]" "getReview_config 1" "status_error 401" 0]
  by (simp add: always_fail_def status_error_def timeout_error_def)

text \<open>
  C2. The trace that one logical call adds is an attempt followed by \<open>j\<close> retries,
  \<open>j\<close> at most 3, and the wait before retry \<open>n\<close> (counted from 0) is exactly
  \<open>1000 * (n + 1)\<close> ms: 1000, 2000, 3000.
\<close>

theorem backoff_delay:
  "\<exists>j. 0 \<le> j \<and> j \<le> 3 \<and>
       snd (retryRequest srv cfg 0 t) =
         t @ Sent cfg # concat (map (\<lambda>n. [Slept (1000 * (n + 1)), Sent cfg]) [0..j - 1])"
proof -
  obtain j where j: "j = 0 \<or> (0 < j \<and> j \<le> 3)" and
    tr: "snd (retryRequest srv cfg 0 t) =
         t @ Sent cfg # concat (map (\<lambda>n. [Slept (1000 * (n + 1)), Sent cfg]) [0..j - 1])"
    using retryRequest_trace [of 0 srv cfg t] by blast
  from j have "0 \<le> j \<and> j \<le> 3" by auto
  with tr show ?thesis by blast
qed

text \<open>
  C3. When every attempt fails with an error that \<open>shouldRetry\<close> accepts, a logical call
  makes exactly 4 attempts, with the waits 1000, 2000 and 3000 ms between them, and
  returns the error of the fourth attempt. Whatever the server does, no call makes more
  than 4 attempts, and the recursion of \<open>retryRequest\<close> terminates on every input.
\<close>

theorem retry_exhaustion:
  assumes "\<forall>k c. \<exists>e. srv k c = Inl e \<and> shouldRetry e"
  shows "snd (retryRequest srv cfg 0 t) =
           t @ [Sent cfg, Slept 1000, Sent cfg, Slept 2000, Sent cfg, Slept 3000, Sent cfg]
       \<and> sent_count (snd (retryRequest srv cfg 0 t)) = sent_count t + 4
       \<and> fst (retryRequest srv cfg 0 t) = srv (sent_count t + 3) cfg
       \<and> (\<forall>srv' cfg' t'. sent_count (snd (retryRequest srv' cfg' 0 t')) \<le> sent_count t' + 4)
       \<and> (\<forall>srv' cfg' retryCount t'. retryRequest_dom (srv', cfg', retryCount, t'))"
proof -
  have step: "retryRequest srv cfg n u =
                retryRequest srv cfg (n + 1) (u @ [Sent cfg, Slept (1000 * (n + 1))])"
    if "n < 3" for n u
  proof -
    from assms obtain e where "srv (sent_count u) cfg = Inl e" and "shouldRetry e"
      by blast
    with that show ?thesis by (simp add: retryRequest_retry)
  qed
  have stop: "retryRequest srv cfg 3 u = (srv (sent_count u) cfg, u @ [Sent cfg])" for u
  proof -
    from assms obtain e where "srv (sent_count u) cfg = Inl e"
      by blast
    then show ?thesis by (simp add: retryRequest_stop)
  qed
  have run: "retryRequest srv cfg 0 t =
          (srv (sent_count t + 3) cfg,
           t @ [Sent cfg, Slept 1000, Sent cfg, Slept 2000, Sent cfg, Slept 3000, Sent cfg])"
    using step [of 0 t] step [of 1 "t @ [Sent cfg, Slept 1000]"]
      step [of 2 "t @ [Sent cfg, Slept 1000, Sent cfg, Slept 2000]"]
      stop [of "t @ [Sent cfg, Slept 1000, Sent cfg, Slept 2000, Sent cfg, Slept 3000]"]
    by (simp add: sent_count_def numeral_3_eq_3)
  have bound: "sent_count (snd (retryRequest srv' cfg' 0 t')) \<le> sent_count t' + 4" for srv' cfg' t'
  proof -
    obtain j where "j = 0 \<or> (0 < j \<and> j \<le> 3)" and
      "snd (retryRequest srv' cfg' 0 t') =
         t' @ Sent cfg' # concat (map (\<lambda>i. [Slept (1000 * (i + 1)), Sent cfg']) [0..j - 1])"
      using retryRequest_trace [of 0 srv' cfg' t'] by blast
    then show ?thesis by (auto simp: sent_count_attempts)
  qed
  have "All retryRequest_dom"
    by (relation "measure (\<lambda>(srv, cfg, retryCount, t). nat (MAX_RETRIES - retryCount))")
       (auto simp: MAX_RETRIES_def)
  then have dom: "retryRequest_dom (srv', cfg', retryCount, t')" for srv' cfg' retryCount t'
    by blast
  from run have "snd (retryRequest srv cfg 0 t) =
           t @ [Sent cfg, Slept 1000, Sent cfg, Slept 2000, Sent cfg, Slept 3000, Sent cfg]"
    and "fst (retryRequest srv cfg 0 t) = srv (sent_count t + 3) cfg"
    by simp_all
  moreover from this have "sent_count (snd (retryRequest srv cfg 0 t)) = sent_count t + 4"
    by (simp add: sent_count_def)
  ultimately show ?thesis using bound dom by blast
qed

theorem retry_exhaustion_witness:
  "retryRequest (always_fail (status_error 500)) (getReview_config 1) 0 [] =
     (Inl (status_error 500),
      [Sent (getReview_config 1), Slept 1000, Sent (getReview_config 1), Slept 2000,
       Sent (getReview_config 1), Slept 3000, Sent (getReview_config 1)])"
proof -
  have h: "\<forall>k c. \<exists>e. always_fail (status_error 500) k c = Inl e \<and> shouldRetry e"
    by (simp add: always_fail_def status_error_def shouldRetry_def)
  from retry_exhaustion [OF h, of "getReview_config 1" "[]"] show ?thesis
    by (simp add: always_fail_def prod_eq_iff)
qed

lemma trim_all_space:
  assumes "\<forall>c\<in>set q. is_space c"
  shows "trim q = []"
proof -
  from assms have "dropWhile is_space q = []"
    by (simp add: dropWhile_eq_Nil_conv)
  then show ?thesis by (simp only: trim_def rev.simps dropWhile.simps)
qed

section \<open>Claims about the facade\<close>

text \<open>
  C4. \<open>ingestReviews\<close> called with a value that is not an array or with an empty array, and
  \<open>searchSimilar\<close> called with an empty query or one of white space only, fail with the
  validation message (under the prefix of the operation) and leave the trace as it was:
  no request is issued.
\<close>

theorem validation_fails_fast:
  "ingestReviews srv NotArray t =
     (Inl (Error ''Failed to ingest reviews: Reviews array is required and cannot be empty''), t)
   \<and> ingestReviews srv (Array []) t =
     (Inl (Error ''Failed to ingest reviews: Reviews array is required and cannot be empty''), t)
   \<and> ((\<forall>c\<in>set query. is_space c) \<longrightarrow>
        searchSimilar srv query k t =
          (Inl (Error ''Failed to search reviews: Search query is required''), t))"
  by (simp add: ingestReviews_def ingestReviews_catch_def searchSimilar_def trim_all_space)

theorem validation_fails_fast_witness:
  "searchSimilar always_ok [] 5 [] =
     (Inl (Error ''Failed to search reviews: Search query is required''), [])
   \<and> searchSimilar always_ok [0x20, 0x20, 0x20] 5 [] =
     (Inl (Error ''Failed to search reviews: Search query is required''), [])
   \<and> searchSimilar always_ok [0xA0, 0x2028, 0x09, 0xFEFF, 0x3000] 5 [] =
     (Inl (Error ''Failed to search reviews: Search query is required''), [])"
  using validation_fails_fast [of always_ok "[]" "[]" 5]
        validation_fails_fast [of always_ok "[]" "[0x20, 0x20, 0x20]" 5]
        validation_fails_fast [of always_ok "[]" "[0xA0, 0x2028, 0x09, 0xFEFF, 0x3000]" 5]
  by (simp add: is_space_def)

lemma getReviews_snd: "snd (getReviews srv ps t) = snd (retryRequest srv (getReviews_config ps) 0 t)"
  by (simp add: getReviews_def split: prod.splits sum.splits)

lemma retryRequest_requests:
  "\<exists>m. m \<le> 3 \<and> requests (snd (retryRequest srv cfg 0 t)) = requests t @ replicate (Suc m) cfg"
proof -
  obtain j where j: "j = 0 \<or> (0 < j \<and> j \<le> 3)" and
    tr: "snd (retryRequest srv cfg 0 t) =
         t @ Sent cfg # concat (map (\<lambda>n. [Slept (1000 * (n + 1)), Sent cfg]) [0..j - 1])"
    using retryRequest_trace [of 0 srv cfg t] by blast
  from j have "length [0..j - 1] \<le> 3" by auto
  with tr show ?thesis
    by (metis requests_attempts)
qed

lemma params_getReviews_config:
  "params (getReviews_config ps) k =
     (case own_properties ps k of
        Some v \<Rightarrow> Some v
      | None \<Rightarrow> [''page'' \<mapsto> Num 1, ''page_size'' \<mapsto> Num 10] k)"
  by (simp add: getReviews_config_def map_add_def)

text \<open>
  C5. The request of \<open>getReviews\<close> carries \<open>page = 1\<close> when the caller gives no page, and
  \<open>page_size = 10\<close> (and no \<open>size\<close>) when the caller gives no size; for the empty
  parameter object the query is exactly these two. Every property the caller gives is in
  the query with the caller's value, and every other key has its default. Each request
  that \<open>getReviews\<close> issues (one to four) is this request.
\<close>

theorem getReviews_defaults:
  "(page ps = None \<longrightarrow> params (getReviews_config ps) ''page'' = Some (Num 1))
   \<and> (size' ps = None \<longrightarrow>
        params (getReviews_config ps) ''page_size'' = Some (Num 10)
        \<and> params (getReviews_config ps) ''size'' = None)
   \<and> params (getReviews_config no_params) = [''page'' \<mapsto> Num 1, ''page_size'' \<mapsto> Num 10]
   \<and> (\<forall>k v. own_properties ps k = Some v \<longrightarrow> params (getReviews_config ps) k = Some v)
   \<and> (\<forall>k. own_properties ps k = None \<longrightarrow>
          params (getReviews_config ps) k = [''page'' \<mapsto> Num 1, ''page_size'' \<mapsto> Num 10] k)
   \<and> (\<exists>m. m \<le> 3 \<and>
          requests (snd (getReviews srv ps t)) =
            requests t @ replicate (Suc m) (getReviews_config ps))"
proof -
  have "params (getReviews_config no_params) = [''page'' \<mapsto> Num 1, ''page_size'' \<mapsto> Num 10]"
    by (rule ext) (simp add: params_getReviews_config own_properties_def no_params_def)
  moreover have "\<exists>m. m \<le> 3 \<and>
          requests (snd (getReviews srv ps t)) =
            requests t @ replicate (Suc m) (getReviews_config ps)"
    by (simp only: getReviews_snd retryRequest_requests)
  ultimately show ?thesis
    by (simp add: params_getReviews_config own_properties_def)
qed

theorem getReviews_defaults_witness:
  "params (getReviews_config no_params) ''page'' = Some (Num 1)
   \<and> params (getReviews_config no_params) ''page_size'' = Some (Num 10)
   \<and> params (getReviews_config (no_params\<lparr>location := Some (Str [0x4E, 0x59, 0x43])\<rparr>)) ''location'' =
       Some (Str [0x4E, 0x59, 0x43])
   \<and> params (getReviews_config no_params) ''search'' = None"
  using getReviews_defaults [of no_params always_ok "[]"]
        getReviews_defaults [of "no_params\<lparr>location := Some (Str [0x4E, 0x59, 0x43])\<rparr>" always_ok "[]"]
  by (simp add: no_params_def own_properties_def)

text \<open>
  C10. The default page size is keyed \<open>page_size\<close> and the caller's is keyed \<open>size\<close>: a
  call that gives a size issues a query with both \<open>page_size = 10\<close> and the caller's
  \<open>size\<close>; \<open>page_size\<close> is 10 in every query. A page given by the caller replaces the
  default page.
\<close>

theorem getReviews_size_beside_page_size:
  "(size' ps = Some v \<longrightarrow>
      params (getReviews_config ps) ''page_size'' = Some (Num 10)
      \<and> params (getReviews_config ps) ''size'' = Some v)
   \<and> params (getReviews_config ps) ''page_size'' = Some (Num 10)
   \<and> (page ps = Some p \<longrightarrow> params (getReviews_config ps) ''page'' = Some p)
   \<and> (\<exists>m. m \<le> 3 \<and>
          requests (snd (getReviews srv ps t)) =
            requests t @ replicate (Suc m) (getReviews_config ps))"
proof -
  have "\<exists>m. m \<le> 3 \<and>
          requests (snd (getReviews srv ps t)) =
            requests t @ replicate (Suc m) (getReviews_config ps)"
    by (simp only: getReviews_snd retryRequest_requests)
  then show ?thesis
    by (simp add: params_getReviews_config own_properties_def)
qed

theorem getReviews_size_beside_page_size_witness:
  "params (getReviews_config (no_params\<lparr>page := Some (Num 2), size' := Some (Num 25)\<rparr>)) ''page_size''
     = Some (Num 10)
   \<and> params (getReviews_config (no_params\<lparr>page := Some (Num 2), size' := Some (Num 25)\<rparr>)) ''size''
     = Some (Num 25)
   \<and> params (getReviews_config (no_params\<lparr>page := Some (Num 2), size' := Some (Num 25)\<rparr>)) ''page''
     = Some (Num 2)"
  using getReviews_size_beside_page_size
          [of "no_params\<lparr>page := Some (Num 2), size' := Some (Num 25)\<rparr>" "Num 25" "Num 2" always_ok "[]"]
  by (simp add: no_params_def)

text \<open>
  C6. When the logical call of \<open>getReview\<close> ends with a 404 response, \<open>getReview\<close> fails
  with the message \<open>Review with ID <id> not found\<close>, which contains \<open>not found\<close> and the
  id. When it ends with a 500 response the message is \<open>Failed to fetch review: \<close> followed
  by the message of the error, and the two messages differ.
\<close>

theorem getReview_not_found:
  assumes "retryRequest srv (getReview_config rid) 0 t = (Inl e, t1)"
    and "response e = Some r" and "status r = 404"
  shows "getReview srv rid t =
           (Inl (Error (''Review with ID '' @ number_text rid @ '' not found'')), t1)
       \<and> sublist ''not found'' (''Review with ID '' @ number_text rid @ '' not found'')
       \<and> sublist (number_text rid) (''Review with ID '' @ number_text rid @ '' not found'')
       \<and> (\<forall>srv' rid' t' e' t1' r'.
             retryRequest srv' (getReview_config rid') 0 t' = (Inl e', t1')
             \<and> response e' = Some r' \<and> status r' = 500 \<longrightarrow>
             getReview srv' rid' t' = (Inl (Error (''Failed to fetch review: '' @ message e')), t1')
             \<and> ''Failed to fetch review: '' @ message e'
                 \<noteq> ''Review with ID '' @ number_text rid @ '' not found'')"
proof -
  have "getReview srv rid t =
           (Inl (Error (''Review with ID '' @ number_text rid @ '' not found'')), t1)"
    using assms by (simp add: getReview_def getReview_catch_def)
  moreover have "sublist ''not found'' (''Review with ID '' @ number_text rid @ '' not found'')"
  proof -
    have "''Review with ID '' @ number_text rid @ '' not found'' =
            (''Review with ID '' @ number_text rid @ '' '') @ ''not found'' @ []"
      by simp
    then show ?thesis unfolding sublist_def by blast
  qed
  moreover have "sublist (number_text rid) (''Review with ID '' @ number_text rid @ '' not found'')"
    by (rule sublist_appendI)
  moreover have "getReview srv' rid' t' = (Inl (Error (''Failed to fetch review: '' @ message e')), t1')"
    if "retryRequest srv' (getReview_config rid') 0 t' = (Inl e', t1')"
      and "response e' = Some r'" and "status r' = 500" for srv' rid' t' e' t1' r'
    using that by (simp add: getReview_def getReview_catch_def)
  ultimately show ?thesis by simp
qed

theorem getReview_not_found_witness:
  "getReview (always_fail (status_error 404)) 7 [] =
     (Inl (Error ''Review with ID 7 not found''), [Sent (getReview_config 7)])
   \<and> getReview (always_fail (status_error 500)) 7 [] =
     (Inl (Error ''Failed to fetch review: Request failed''),
      [Sent (getReview_config 7), Slept 1000, Sent (getReview_config 7), Slept 2000,
       Sent (getReview_config 7), Slept 3000, Sent (getReview_config 7)])"
proof -
  have a: "retryRequest (always_fail (status_error 404)) (getReview_config 7) 0 [] =
             (Inl (status_error 404), [Sent (getReview_config 7)])"
    by (simp add: retryRequest_unfold always_fail_def status_error_def shouldRetry_def)
  have b: "retryRequest (always_fail (status_error 500)) (getReview_config 7) 0 [] =
             (Inl (status_error 500),
              [Sent (getReview_config 7), Slept 1000, Sent (getReview_config 7), Slept 2000,
               Sent (getReview_config 7), Slept 3000, Sent (getReview_config 7)])"
    by (simp add: retryRequest_unfold always_fail_def status_error_def shouldRetry_def)
  have r: "response (status_error 404) = Some \<lparr>status = 404, resp_data = \<lparr>detail = None, payload = []\<rparr>\<rparr>"
    and r': "response (status_error 500) = Some \<lparr>status = 500, resp_data = \<lparr>detail = None, payload = []\<rparr>\<rparr>"
    by (simp_all add: status_error_def)
  have s: "status \<lparr>status = 404, resp_data = \<lparr>detail = None, payload = []\<rparr>\<rparr> = 404"
    and s': "status \<lparr>status = 500, resp_data = \<lparr>detail = None, payload = []\<rparr>\<rparr> = 500"
    by simp_all
  note th = getReview_not_found [OF a r s]
  have "getReview (always_fail (status_error 404)) 7 [] =
          (Inl (Error ''Review with ID 7 not found''), [Sent (getReview_config 7)])"
    using th [THEN conjunct1] by (simp add: number_text_def digits.simps)
  moreover have "getReview (always_fail (status_error 500)) 7 [] =
     (Inl (Error ''Failed to fetch review: Request failed''),
      [Sent (getReview_config 7), Slept 1000, Sent (getReview_config 7), Slept 2000,
       Sent (getReview_config 7), Slept 3000, Sent (getReview_config 7)])"
    using th [THEN conjunct2, THEN conjunct2, THEN conjunct2, rule_format,
              OF conjI [OF b conjI [OF r' s']], THEN conjunct1]
    by (simp add: status_error_def)
  ultimately show ?thesis by simp
qed

lemma status_is_has_response: "status_is x n \<Longrightarrow> has_response x"
  by (cases x) (auto split: option.splits)

lemma suggestReply_fst:
  "fst (suggestReply srv rid t) =
     (case fst (retryRequest srv
                  \<lparr>http_method = ''POST'', url = ''/reviews/'' @ number_text rid @ ''/suggest-reply'',
                   params = Map.empty, data = None\<rparr> 0 t) of
        Inr resp \<Rightarrow> Inr (resp_data resp)
      | Inl e \<Rightarrow> Inl (suggestReply_catch rid (AxiosErr e)))"
  by (simp add: suggestReply_def split: prod.splits sum.splits)

lemma getAnalytics_fst:
  "fst (getAnalytics srv t) =
     (case fst (retryRequest srv
                  \<lparr>http_method = ''GET'', url = ''/analytics'', params = Map.empty, data = None\<rparr> 0 t) of
        Inr resp \<Rightarrow> Inr (resp_data resp)
      | Inl e \<Rightarrow> Inl (getAnalytics_catch (AxiosErr e)))"
  by (simp add: getAnalytics_def split: prod.splits sum.splits)

lemma searchSimilar_fst:
  "trim query \<noteq> [] \<Longrightarrow>
   fst (searchSimilar srv query k t) =
     (case fst (retryRequest srv
                  \<lparr>http_method = ''GET'', url = ''/search'',
                   params = [''q'' \<mapsto> Str (trim query), ''k'' \<mapsto> Num k], data = None\<rparr> 0 t) of
        Inr resp \<Rightarrow> Inr (resp_data resp)
      | Inl e \<Rightarrow> Inl (searchSimilar_catch (AxiosErr e)))"
  by (auto simp: searchSimilar_def trim_def split: prod.splits sum.splits)

lemma processReviews_fst:
  "fst (processReviews srv t) =
     (case fst (retryRequest srv
                  \<lparr>http_method = ''POST'', url = ''/process-reviews'', params = Map.empty,
                   data = None\<rparr> 0 t) of
        Inr resp \<Rightarrow> Inr (resp_data resp)
      | Inl e \<Rightarrow> Inl (processReviews_catch (AxiosErr e)))"
  by (simp add: processReviews_def split: prod.splits sum.splits)

text \<open>
  C7. On an error with a 503 response the catch blocks of \<open>suggestReply\<close>,
  \<open>getAnalytics\<close>, \<open>searchSimilar\<close> and \<open>processReviews\<close> produce their own
  "currently unavailable" message. No caught value without a 503 response produces that
  message, so it differs from every other failure message of the operation. A server
  that answers every request with such an error makes each operation fail with it.
\<close>

theorem unavailable_messages:
  assumes "response e = Some r" and "status r = 503"
  shows "suggestReply_catch rid (AxiosErr e) = Error ''AI reply generation is currently unavailable''
       \<and> getAnalytics_catch (AxiosErr e) = Error ''Analytics are currently unavailable''
       \<and> searchSimilar_catch (AxiosErr e) = Error ''Search functionality is currently unavailable''
       \<and> processReviews_catch (AxiosErr e) = Error ''Batch processing is currently unavailable''
       \<and> (\<forall>x. \<not> status_is x 503 \<longrightarrow>
             suggestReply_catch rid x \<noteq> Error ''AI reply generation is currently unavailable''
             \<and> getAnalytics_catch x \<noteq> Error ''Analytics are currently unavailable''
             \<and> searchSimilar_catch x \<noteq> Error ''Search functionality is currently unavailable''
             \<and> processReviews_catch x \<noteq> Error ''Batch processing is currently unavailable'')
       \<and> ((\<forall>n c. srv n c = Inl e) \<longrightarrow>
             fst (suggestReply srv rid t) = Inl (Error ''AI reply generation is currently unavailable'')
             \<and> fst (getAnalytics srv t) = Inl (Error ''Analytics are currently unavailable'')
             \<and> (trim query \<noteq> [] \<longrightarrow>
                  fst (searchSimilar srv query k t) =
                    Inl (Error ''Search functionality is currently unavailable''))
             \<and> fst (processReviews srv t) = Inl (Error ''Batch processing is currently unavailable''))"
proof -
  have h: "has_response (AxiosErr e)" "status_is (AxiosErr e) 503" "\<not> status_is (AxiosErr e) 404"
    using assms by simp_all
  have c1: "suggestReply_catch rid (AxiosErr e) = Error ''AI reply generation is currently unavailable''"
    using h by (simp add: suggestReply_catch_def)
  have c2: "getAnalytics_catch (AxiosErr e) = Error ''Analytics are currently unavailable''"
    using h by simp
  have c3: "searchSimilar_catch (AxiosErr e) = Error ''Search functionality is currently unavailable''"
    using h by simp
  have c4: "processReviews_catch (AxiosErr e) = Error ''Batch processing is currently unavailable''"
    using h by simp
  have d1: "suggestReply_catch rid x \<noteq> Error ''AI reply generation is currently unavailable''"
    if "\<not> status_is x 503" for x
    using that by (simp add: suggestReply_catch_def)
  have d2: "getAnalytics_catch x \<noteq> Error ''Analytics are currently unavailable''"
    if "\<not> status_is x 503" for x
    using that by (cases x) simp_all
  have d3: "searchSimilar_catch x \<noteq> Error ''Search functionality is currently unavailable''"
    if "\<not> status_is x 503" for x
    using that by (cases x) simp_all
  have d4: "processReviews_catch x \<noteq> Error ''Batch processing is currently unavailable''"
    if "\<not> status_is x 503" for x
    using that by (cases x) simp_all
  have o: "fst (suggestReply srv rid t) = Inl (Error ''AI reply generation is currently unavailable'')
         \<and> fst (getAnalytics srv t) = Inl (Error ''Analytics are currently unavailable'')
         \<and> (trim query \<noteq> [] \<longrightarrow>
                  fst (searchSimilar srv query k t) =
                    Inl (Error ''Search functionality is currently unavailable''))
         \<and> fst (processReviews srv t) = Inl (Error ''Batch processing is currently unavailable'')"
    if "\<forall>n c. srv n c = Inl e"
    using retryRequest_const_fail [OF that] c1 c2 c3 c4
    by (simp add: suggestReply_fst getAnalytics_fst searchSimilar_fst processReviews_fst)
  from c1 c2 c3 c4 d1 d2 d3 d4 o show ?thesis by blast
qed

theorem unavailable_messages_witness:
  "fst (suggestReply (always_fail (status_error 503)) 7 []) =
     Inl (Error ''AI reply generation is currently unavailable'')
   \<and> fst (searchSimilar (always_fail (status_error 503)) [0x73, 0x6C, 0x6F, 0x77] 5 []) =
     Inl (Error ''Search functionality is currently unavailable'')
   \<and> getAnalytics_catch (AxiosErr (status_error 503)) = Error ''Analytics are currently unavailable''
   \<and> getAnalytics_catch (AxiosErr (status_error 500)) \<noteq> Error ''Analytics are currently unavailable''
   \<and> processReviews_catch (AxiosErr (status_error 500)) = Error ''Failed to process reviews: Request failed''"
proof -
  have r: "response (status_error 503) = Some \<lparr>status = 503, resp_data = \<lparr>detail = None, payload = []\<rparr>\<rparr>"
    by (simp add: status_error_def)
  have s: "status \<lparr>status = 503, resp_data = \<lparr>detail = None, payload = []\<rparr>\<rparr> = 503"
    by simp
  have n: "\<not> status_is (AxiosErr (status_error 500)) 503"
    by (simp add: status_error_def)
  have a: "\<forall>n c. always_fail (status_error 503) n c = Inl (status_error 503)"
    by (simp add: always_fail_def)
  have q: "trim [0x73, 0x6C, 0x6F, 0x77] \<noteq> []"
    by (simp add: trim_def is_space_def)
  note th = unavailable_messages [OF r s, of 7 "always_fail (status_error 503)" "[]" "[0x73, 0x6C, 0x6F, 0x77]" 5]
  from th a q have "fst (suggestReply (always_fail (status_error 503)) 7 []) =
     Inl (Error ''AI reply generation is currently unavailable'')"
    and "fst (searchSimilar (always_fail (status_error 503)) [0x73, 0x6C, 0x6F, 0x77] 5 []) =
     Inl (Error ''Search functionality is currently unavailable'')"
    and "getAnalytics_catch (AxiosErr (status_error 503)) = Error ''Analytics are currently unavailable''"
    by blast+
  moreover from th n have "getAnalytics_catch (AxiosErr (status_error 500)) \<noteq> Error ''Analytics are currently unavailable''"
    by blast
  moreover have "processReviews_catch (AxiosErr (status_error 500)) = Error ''Failed to process reviews: Request failed''"
    by (simp add: status_error_def detail_or_message_def)
  ultimately show ?thesis by blast
qed

lemma healthCheck_unfold:
  "healthCheck srv t =
     (case srv (sent_count t) healthCheck_config of
        Inr resp \<Rightarrow> (Inr (resp_data resp), t @ [Sent healthCheck_config])
      | Inl e \<Rightarrow> (Inl (healthCheck_catch (AxiosErr e)), t @ [Sent healthCheck_config]))"
  by (simp add: healthCheck_def api_def split: sum.splits)

lemma healthCheck_catch_axios:
  "healthCheck_catch (AxiosErr e) = Error (''Health check failed: '' @ detail_or_message e)"
  by (simp add: detail_or_message_def)

text \<open>
  Against C8 as stated: a health check that fails with status 500, which the retry policy
  accepts, issues one request; the same request under \<open>retryRequest\<close> issues four.
\<close>

theorem healthCheck_retry_counterexample:
  "shouldRetry (status_error 500)
   \<and> healthCheck (always_fail (status_error 500)) [] =
       (Inl (Error ''Health check failed: Request failed''), [Sent healthCheck_config])
   \<and> snd (retryRequest (always_fail (status_error 500)) healthCheck_config 0 []) =
       [Sent healthCheck_config, Slept 1000, Sent healthCheck_config, Slept 2000,
        Sent healthCheck_config, Slept 3000, Sent healthCheck_config]"
  by (simp add: healthCheck_unfold retryRequest_unfold always_fail_def status_error_def
        shouldRetry_def detail_or_message_def)

text \<open>
  C8 (amended). \<open>healthCheck\<close> issues exactly one request, through \<open>api.get\<close> and not
  through \<open>retryRequest\<close>, so it is never retried. Every failure surfaces as an error
  whose message is \<open>Health check failed: \<close> followed by the detail of the response body when
  there is a response with a non-empty detail, and by the message of the error when
  there is no response or no detail.
\<close>

theorem healthCheck_single_attempt:
  "snd (healthCheck srv t) = t @ [Sent healthCheck_config]
   \<and> (\<forall>e. srv (sent_count t) healthCheck_config = Inl e \<longrightarrow>
          fst (healthCheck srv t) = Inl (Error (''Health check failed: '' @ detail_or_message e)))
   \<and> (\<forall>e r d. response e = Some r \<and> detail (resp_data r) = Some d \<and> d \<noteq> [] \<longrightarrow>
          detail_or_message e = d)
   \<and> (\<forall>e. response e = None \<or> (\<exists>r. response e = Some r \<and> detail (resp_data r) = None) \<longrightarrow>
          detail_or_message e = message e)
   \<and> (\<forall>x. \<exists>d. healthCheck_catch x = Error (''Health check failed: '' @ d))"
proof -
  have "snd (healthCheck srv t) = t @ [Sent healthCheck_config]"
    by (simp add: healthCheck_unfold split: sum.splits)
  moreover have "fst (healthCheck srv t) = Inl (Error (''Health check failed: '' @ detail_or_message e))"
    if "srv (sent_count t) healthCheck_config = Inl e" for e
    using that by (simp add: healthCheck_unfold healthCheck_catch_axios del: healthCheck_catch.simps(1))
  moreover have "detail_or_message e = d"
    if "response e = Some r \<and> detail (resp_data r) = Some d \<and> d \<noteq> []" for e r d
    using that by (simp add: detail_or_message_def)
  moreover have "detail_or_message e = message e"
    if "response e = None \<or> (\<exists>r. response e = Some r \<and> detail (resp_data r) = None)" for e
    using that by (auto simp: detail_or_message_def)
  moreover have "\<exists>d. healthCheck_catch x = Error (''Health check failed: '' @ d)" for x
    by (cases x) (simp_all add: healthCheck_catch_axios del: healthCheck_catch.simps(1))
  ultimately show ?thesis by blast
qed

theorem healthCheck_single_attempt_witness:
  "healthCheck (always_fail detailed_error) [] =
     (Inl (Error ''Health check failed: database is down''), [Sent healthCheck_config])
   \<and> healthCheck (always_fail timeout_error) [] =
     (Inl (Error ''Health check failed: timeout of 30000ms exceeded''), [Sent healthCheck_config])"
proof -
  note th1 = healthCheck_single_attempt [of "always_fail detailed_error" "[]"]
  note th2 = healthCheck_single_attempt [of "always_fail timeout_error" "[]"]
  have a1: "always_fail detailed_error (sent_count []) healthCheck_config = Inl detailed_error"
    and a2: "always_fail timeout_error (sent_count []) healthCheck_config = Inl timeout_error"
    by (simp_all add: always_fail_def)
  have d1: "response detailed_error =
              Some \<lparr>status = 500, resp_data = \<lparr>detail = Some ''database is down'', payload = []\<rparr>\<rparr>
            \<and> detail (resp_data \<lparr>status = 500,
                  resp_data = \<lparr>detail = Some ''database is down'', payload = []\<rparr>\<rparr>) =
                Some ''database is down''
            \<and> ''database is down'' \<noteq> []"
    by (simp add: detailed_error_def)
  have d2: "response timeout_error = None \<or>
            (\<exists>r. response timeout_error = Some r \<and> detail (resp_data r) = None)"
    by (simp add: timeout_error_def)
  have m1: "detail_or_message detailed_error = ''database is down''"
    using th1 [THEN conjunct2, THEN conjunct2, THEN conjunct1, rule_format, OF d1] .
  have m2: "detail_or_message timeout_error = message timeout_error"
    using th2 [THEN conjunct2, THEN conjunct2, THEN conjunct2, THEN conjunct1, rule_format, OF d2] .
  have "fst (healthCheck (always_fail detailed_error) []) =
          Inl (Error ''Health check failed: database is down'')"
    using th1 [THEN conjunct2, THEN conjunct1, rule_format, OF a1] m1 by simp
  moreover have "fst (healthCheck (always_fail timeout_error) []) =
          Inl (Error ''Health check failed: timeout of 30000ms exceeded'')"
    using th2 [THEN conjunct2, THEN conjunct1, rule_format, OF a2] m2
    by (simp add: timeout_error_def)
  moreover have "snd (healthCheck (always_fail detailed_error) []) = [Sent healthCheck_config]"
    and "snd (healthCheck (always_fail timeout_error) []) = [Sent healthCheck_config]"
    using th1 [THEN conjunct1] th2 [THEN conjunct1] by simp_all
  ultimately show ?thesis by (simp add: prod_eq_iff)
qed

section \<open>Claims about the connection status\<close>

text \<open>
  Against C9 as stated: after a successful poll and a browser offline event, a browser
  online event leaves \<open>apiStatus\<close> at online, issues no request, and the banner goes from
  Offline to Online without passing through Checking.
\<close>

theorem came_back_online_counterexample:
  "shown (render (fst (run always_ok [Poll, BrowserOffline] (initial True, [])))) = Offline
   \<and> run always_ok [Poll, BrowserOffline, BrowserOnline] (initial True, []) =
       (\<lparr>isOnline = True, apiStatus = api_online\<rparr>, [Sent healthCheck_config])
   \<and> shown (render (fst (run always_ok [Poll, BrowserOffline, BrowserOnline] (initial True, []))))
       = Online"
  by (simp add: checkApiHealth_def healthCheck_unfold always_ok_def initial_def handleOnline_def
        handleOffline_def render_def)

text \<open>
  C9 (amended). \<open>apiStatus\<close> starts as checking, and a browser that is online shows
  Checking. A successful poll sets \<open>apiStatus\<close> to online and a failed poll sets it to
  offline, each with one request; while the browser is online these show as Online and
  Offline. A browser offline event sets \<open>isOnline\<close> to false with no request and shows
  Offline. A browser online event sets \<open>isOnline\<close> to true and does nothing else: no
  request, and \<open>apiStatus\<close> as it was.
\<close>

theorem connection_status_transitions:
  "apiStatus (initial b) = api_checking
   \<and> shown (render (initial True)) = Checking
   \<and> ((\<exists>r. srv (sent_count t) healthCheck_config = Inr r) \<longrightarrow>
        step srv Poll (cs, t) = (cs\<lparr>apiStatus := api_online\<rparr>, t @ [Sent healthCheck_config]))
   \<and> ((\<exists>e. srv (sent_count t) healthCheck_config = Inl e) \<longrightarrow>
        step srv Poll (cs, t) = (cs\<lparr>apiStatus := api_offline\<rparr>, t @ [Sent healthCheck_config]))
   \<and> step srv BrowserOffline (cs, t) = (cs\<lparr>isOnline := False\<rparr>, t)
   \<and> shown (render (cs\<lparr>isOnline := False\<rparr>)) = Offline
   \<and> step srv BrowserOnline (cs, t) = (cs\<lparr>isOnline := True\<rparr>, t)
   \<and> (isOnline cs \<longrightarrow>
        shown (render (cs\<lparr>apiStatus := api_online\<rparr>)) = Online
        \<and> shown (render (cs\<lparr>apiStatus := api_offline\<rparr>)) = Offline)"
  by (auto simp: initial_def render_def checkApiHealth_def healthCheck_unfold handleOnline_def
        handleOffline_def)

theorem connection_status_transitions_witness:
  "step always_ok Poll (initial True, []) =
     (\<lparr>isOnline = True, apiStatus = api_online\<rparr>, [Sent healthCheck_config])
   \<and> step (always_fail timeout_error) Poll (initial True, []) =
     (\<lparr>isOnline = True, apiStatus = api_offline\<rparr>, [Sent healthCheck_config])
   \<and> shown (render \<lparr>isOnline = True, apiStatus = api_online\<rparr>) = Online
   \<and> shown (render \<lparr>isOnline = True, apiStatus = api_offline\<rparr>) = Offline"
  using connection_status_transitions [of True always_ok "[]" "initial True"]
        connection_status_transitions [of True "always_fail timeout_error" "[]" "initial True"]
  by (simp add: always_ok_def always_fail_def initial_def)

end
